theory Spec2Isabelle
  imports Complex_Main "HOL-Library.Multiset" "HOL-Library.AList"
begin

section \<open>Query parameters\<close>

text \<open>
  \<^verbatim>\<open>entry.mjs\<close> is one HTTP server with two handlers of interest: \<^verbatim>\<open>/embed\<close> builds the
  comparison table, \<^verbatim>\<open>/screenshot.png\<close> serves a cached screenshot of it. Both read
  \<^verbatim>\<open>req.query\<close>, a \<^verbatim>\<open>QueryDictionary\<close>: an object whose values are strings or arrays of
  strings (a repeated parameter). The object is modelled by its entries in insertion
  order, which is what \<^verbatim>\<open>Object.entries\<close> returns; the keys of an object are distinct.
  Strings are lists of code units below 256.
\<close>

datatype queryValue = Str string | Arr "string list"

type_synonym QueryDictionary = "(string \<times> queryValue) list"

section \<open>Array and string primitives of the language\<close>

text \<open>\<^verbatim>\<open>Array.prototype.join\<close> on an array of strings.\<close>

fun join :: "string \<Rightarrow> string list \<Rightarrow> string" where
  "join sep [] = []"
| "join sep [x] = x"
| "join sep (x # y # ys) = x @ sep @ join sep (y # ys)"

text \<open>
  \<^verbatim>\<open>String.prototype.split\<close> with a separator of one code unit: the empty string splits
  into one empty piece.
\<close>

fun split :: "char \<Rightarrow> string \<Rightarrow> string list" where
  "split sep [] = [[]]"
| "split sep (c # cs) =
     (if c = sep then [] # split sep cs
      else (case split sep cs of [] \<Rightarrow> [[c]] | w # ws \<Rightarrow> (c # w) # ws))"

text \<open>
  \<^verbatim>\<open>Array.prototype.sort\<close> with a comparator. For a consistent comparator the language
  fixes the result: the elements in ascending order, elements that compare equal in their
  original order (the sort is stable). Insertion from the right computes it: an element
  goes in front of the first element it does not compare greater than.
\<close>

fun insertBy :: "('a \<Rightarrow> 'a \<Rightarrow> int) \<Rightarrow> 'a \<Rightarrow> 'a list \<Rightarrow> 'a list" where
  "insertBy cmp x [] = [x]"
| "insertBy cmp x (y # ys) = (if cmp x y \<le> 0 then x # y # ys else y # insertBy cmp x ys)"

definition sortArray :: "('a \<Rightarrow> 'a \<Rightarrow> int) \<Rightarrow> 'a list \<Rightarrow> 'a list" where
  "sortArray cmp xs = foldr (insertBy cmp) xs []"

text \<open>
  Conversion of a query value to a string, as a template literal and the loose equality
  \<^verbatim>\<open>==\<close> against a string perform it: an array becomes its elements joined by commas.
\<close>

definition toString :: "queryValue \<Rightarrow> string" where
  "toString v = (case v of Str s \<Rightarrow> s | Arr vs \<Rightarrow> join '','' vs)"

section \<open>The cache key\<close>

text \<open>
  \<^verbatim>\<open>toScreenshotCacheSlug\<close> (lines 187 to 192):
  \<^verbatim>\<open>Object.entries(query).sort(([ a ], [ b ]) => a.localeCompare(b))\<close>
  \<^verbatim>\<open>.map(([ key, value ]) => `${key}:${Array.isArray(value) ? value.join(',') : value}`).join(';')\<close>.
  \<^verbatim>\<open>String.prototype.localeCompare\<close> belongs to the runtime, so the key derivation takes it
  as a parameter: a negative, zero or positive integer. \<open>byKey\<close> is the arrow function
  given to \<^verbatim>\<open>sort\<close>.
\<close>

definition byKey :: "(string \<Rightarrow> string \<Rightarrow> int) \<Rightarrow> string \<times> 'v \<Rightarrow> string \<times> 'v \<Rightarrow> int" where
  "byKey localeCompare = (\<lambda>(a, _) (b, _). localeCompare a b)"

definition toScreenshotCacheSlug :: "(string \<Rightarrow> string \<Rightarrow> int) \<Rightarrow> QueryDictionary \<Rightarrow> string" where
  "toScreenshotCacheSlug localeCompare query =
     join '';''
       (map (\<lambda>(key, v). key @ '':'' @ (case v of Arr vs \<Rightarrow> join '','' vs | Str s \<Rightarrow> s))
         (sortArray (byKey localeCompare) query))"



text \<open>
  A comparator to evaluate the model with. It has the two properties of
  \<^verbatim>\<open>localeCompare\<close> that matter for the key: it is consistent, and it returns 0 for some
  pairs of different strings. The language definition requires the second of
  \<^verbatim>\<open>localeCompare\<close> for canonically equivalent strings, and the root collation of the
  runtime's collator also gives no weight to the control characters U+0000 to U+0008,
  U+000E to U+001F and U+007F; \<open>sampleCompare\<close> does the latter and otherwise orders by
  code unit.
\<close>

fun codeUnitCompare :: "string \<Rightarrow> string \<Rightarrow> int" where
  "codeUnitCompare [] [] = 0"
| "codeUnitCompare [] (y # ys) = - 1"
| "codeUnitCompare (x # xs) [] = 1"
| "codeUnitCompare (x # xs) (y # ys) =
     (if (of_char x :: nat) < of_char y then - 1
      else if (of_char y :: nat) < of_char x then 1
      else codeUnitCompare xs ys)"

definition ignorable :: "char \<Rightarrow> bool" where
  "ignorable c =
     ((of_char c :: nat) < 9 \<or> (14 \<le> (of_char c :: nat) \<and> (of_char c :: nat) < 32) \<or>
      (of_char c :: nat) = 127)"

definition sampleCompare :: "string \<Rightarrow> string \<Rightarrow> int" where
  "sampleCompare a b =
     codeUnitCompare (filter (\<lambda>c. \<not> ignorable c) a) (filter (\<lambda>c. \<not> ignorable c) b)"

section \<open>The \<^verbatim>\<open>/embed\<close> handler\<close>

text \<open>
  Exceptions are values. \<open>RangeError\<close> stands for the exception the date library throws
  when it rejects its arguments; \<open>ENOENT\<close> and \<open>EACCES\<close> are file-system errors;
  \<open>CaptureError\<close> is a failure of the browser while it takes the screenshot.
\<close>

datatype error = RangeError | ENOENT | EACCES | CaptureError

subsection \<open>Rows of the table\<close>

record keyFormat =
  name :: string
  timezone :: string
  locale' :: string

definition builtinFormats :: "keyFormat list" where
  "builtinFormats =
     [\<lparr>name = ''Ward Radio HQ'', timezone = ''America/Los_Angeles'', locale' = ''en-US''\<rparr>,
      \<lparr>name = ''US East Coasters'', timezone = ''America/New_York'', locale' = ''en-US''\<rparr>,
      \<lparr>name = ''Mormon Central Time (Utah)'', timezone = ''America/Denver'', locale' = ''en-US''\<rparr>,
      \<lparr>name = ''Sydney, AU'', timezone = ''Australia/Sydney'', locale' = ''en-AU''\<rparr>,
      \<lparr>name = ''UTC/Zulu/GMT'', timezone = ''Etc/UTC'', locale' = ''en-GB''\<rparr>]"

text \<open>\<^verbatim>\<open>tz ?? 'America/Denver'\<close>: only a missing parameter is replaced.\<close>

definition mainTimezone :: "QueryDictionary \<Rightarrow> queryValue" where
  "mainTimezone query = (case map_of query ''tz'' of None \<Rightarrow> Str ''America/Denver'' | Some tz \<Rightarrow> tz)"

text \<open>\<^verbatim>\<open>req.query.locale ?? 'en-US'\<close>, the locale of the prepended row.\<close>

definition queryLocale :: "QueryDictionary \<Rightarrow> queryValue" where
  "queryLocale query = (case map_of query ''locale'' of None \<Rightarrow> Str ''en-US'' | Some l \<Rightarrow> l)"

text \<open>
  The spread expression of \<open>keyFormats\<close> (lines 79 and 80): a string is split at commas, an
  array is taken as it is, a missing parameter gives no additional row.
\<close>

definition additionalTimezones :: "QueryDictionary \<Rightarrow> string list" where
  "additionalTimezones query =
     (case map_of query ''additionalTimezones'' of
        Some (Str s) \<Rightarrow> split CHR '','' s
      | Some (Arr vs) \<Rightarrow> vs
      | None \<Rightarrow> [])"

definition keyFormats :: "QueryDictionary \<Rightarrow> keyFormat list" where
  "keyFormats query =
     builtinFormats @
     map (\<lambda>tzString. \<lparr>name = tzString, timezone = tzString, locale' = ''en-US''\<rparr>)
       (additionalTimezones query)"

subsection \<open>Numbers and the date library\<close>

text \<open>
  The values of the language's number type that unary plus can produce from a string:
  not-a-number, the infinities, and the finite values by their mathematical value.
  \<^verbatim>\<open>StringToNumber\<close>, the conversion of a string that unary plus performs, belongs to the
  runtime and is a parameter of the model.
\<close>

datatype number = NaN | PosInfinity | NegInfinity | Finite rat

text \<open>
  \<^verbatim>\<open>+(year ?? 2024)\<close>: a missing parameter gives the default number; a string is converted;
  an array is first converted to a string.
\<close>

definition numberOr :: "(string \<Rightarrow> number) \<Rightarrow> queryValue option \<Rightarrow> int \<Rightarrow> number" where
  "numberOr StringToNumber param dflt =
     (case param of None \<Rightarrow> Finite (of_int dflt) | Some v \<Rightarrow> StringToNumber (toString v))"

text \<open>
  The date library is outside the repository. Its first step on each numeric field of
  the property bag is fixed by its specification and decides what happens to a malformed
  parameter, so it is part of the model: a field that is not a finite number is rejected,
  a finite one is truncated to an integer. Everything after that (time-zone lookup,
  clamping, range checks, the time-zone database) is the parameter \<open>T\<close>.
\<close>

definition toIntegerWithTruncation :: "number \<Rightarrow> error + int" where
  "toIntegerWithTruncation n =
     (case n of Finite r \<Rightarrow> Inr (if 0 \<le> r then \<lfloor>r\<rfloor> else \<lceil>r\<rceil>) | _ \<Rightarrow> Inl RangeError)"

record ('z, 'i) temporal =
  zonedDateTimeFrom :: "queryValue \<Rightarrow> int \<Rightarrow> int \<Rightarrow> int \<Rightarrow> int \<Rightarrow> int \<Rightarrow> error + 'z"
  toInstant :: "'z \<Rightarrow> 'i"
  toZonedDateTimeISO :: "'i \<Rightarrow> string \<Rightarrow> error + 'z"

definition andThen :: "error + 'a \<Rightarrow> ('a \<Rightarrow> error + 'b) \<Rightarrow> error + 'b" where
  "andThen r f = (case r of Inl e \<Rightarrow> Inl e | Inr x \<Rightarrow> f x)"


text \<open>
  \<^verbatim>\<open>targetDate\<close> (lines 83 to 90):
  \<^verbatim>\<open>Temporal.ZonedDateTime.from({ timeZone: mainTimezone, year: +(year ?? 2024), ... })\<close>.
\<close>

definition targetDate :: "(string \<Rightarrow> number) \<Rightarrow> ('z, 'i) temporal \<Rightarrow> QueryDictionary \<Rightarrow> error + 'z" where
  "targetDate StringToNumber T query =
     andThen (toIntegerWithTruncation (numberOr StringToNumber (map_of query ''year'') 2024)) (\<lambda>y.
     andThen (toIntegerWithTruncation (numberOr StringToNumber (map_of query ''month'') 1)) (\<lambda>mo.
     andThen (toIntegerWithTruncation (numberOr StringToNumber (map_of query ''day'') 12)) (\<lambda>d.
     andThen (toIntegerWithTruncation (numberOr StringToNumber (map_of query ''hour'') 16)) (\<lambda>h.
     andThen (toIntegerWithTruncation (numberOr StringToNumber (map_of query ''minute'') 0)) (\<lambda>mi.
     zonedDateTimeFrom T (mainTimezone query) y mo d h mi)))))"

subsection \<open>The table body\<close>

text \<open>
  A row of the table body before it is formatted: its label, its time zone, the zoned
  date-time it shows and the locale it is formatted with (the row is then rendered as
  \<^verbatim>\<open><tr><td>label</td><td>shown.toLocaleString(locale, formatOptions)</td></tr>\<close>).
\<close>

record 'z tableRow =
  label :: string
  rowZone :: string
  shown :: 'z
  formatLocale :: queryValue

text \<open>\<^verbatim>\<open>f.timezone == mainTimezone\<close>: loose equality of a string and a query value.\<close>

definition looseEq :: "string \<Rightarrow> queryValue \<Rightarrow> bool" where
  "looseEq s v = (s = toString v)"

text \<open>
  The conditional row in front of the mapped rows (line 114):
  \<^verbatim>\<open>!keyFormats.some(f => f.timezone == mainTimezone) ? `<tr><td>${mainTimezone}</td>...` : ''\<close>.
\<close>

definition mainRow :: "QueryDictionary \<Rightarrow> 'z \<Rightarrow> 'z tableRow list" where
  "mainRow query target =
     (if \<not> list_ex (\<lambda>f. looseEq (timezone f) (mainTimezone query)) (keyFormats query)
      then [\<lparr>label = toString (mainTimezone query), rowZone = toString (mainTimezone query),
              shown = target, formatLocale = queryLocale query\<rparr>]
      else [])"

text \<open>
  The callback of \<^verbatim>\<open>keyFormats.map\<close> (lines 115 to 128): the main date itself for the main
  zone, \<^verbatim>\<open>targetDate.toInstant().toZonedDateTimeISO(f.timezone)\<close> for another zone.
\<close>

definition resultDatetime :: "('z, 'i) temporal \<Rightarrow> queryValue \<Rightarrow> 'z \<Rightarrow> keyFormat \<Rightarrow> error + 'z" where
  "resultDatetime T mainTz target f =
     (if looseEq (timezone f) mainTz then Inr target
      else toZonedDateTimeISO T (toInstant T target) (timezone f))"

definition zoneRow :: "('z, 'i) temporal \<Rightarrow> queryValue \<Rightarrow> 'z \<Rightarrow> keyFormat \<Rightarrow> error + 'z tableRow" where
  "zoneRow T mainTz target f =
     andThen (resultDatetime T mainTz target f) (\<lambda>z.
       Inr \<lparr>label = name f, rowZone = timezone f, shown = z, formatLocale = Str (locale' f)\<rparr>)"

text \<open>\<^verbatim>\<open>Array.prototype.map\<close> with a callback that may throw.\<close>

fun mapE :: "('a \<Rightarrow> error + 'b) \<Rightarrow> 'a list \<Rightarrow> error + 'b list" where
  "mapE f [] = Inr []"
| "mapE f (x # xs) = andThen (f x) (\<lambda>y. andThen (mapE f xs) (\<lambda>ys. Inr (y # ys)))"

definition tableRows :: "('z, 'i) temporal \<Rightarrow> QueryDictionary \<Rightarrow> 'z \<Rightarrow> error + 'z tableRow list" where
  "tableRows T query target =
     andThen (mapE (zoneRow T (mainTimezone query) target) (keyFormats query)) (\<lambda>rows.
       Inr (mainRow query target @ rows))"

text \<open>
  The content of the response: \<^verbatim>\<open>styles.map\<close> builds one block per style, each with a
  table of the same rows, computed again for each block. \<open>embed\<close> is the handler as far
  as the table goes: the main date, then the blocks. (The line with the server time, the
  template around the blocks and the query string added to the image address do not
  depend on the rows.)
\<close>

definition styles :: "string list" where
  "styles = [''normal'', ''wingdings'', ''aurebesh'']"

definition content ::
  "('z, 'i) temporal \<Rightarrow> QueryDictionary \<Rightarrow> 'z \<Rightarrow> error + (string \<times> 'z tableRow list) list" where
  "content T query target =
     mapE (\<lambda>clss. andThen (tableRows T query target) (\<lambda>rows. Inr (clss, rows))) styles"

definition embed ::
  "(string \<Rightarrow> number) \<Rightarrow> ('z, 'i) temporal \<Rightarrow> QueryDictionary
    \<Rightarrow> error + (string \<times> 'z tableRow list) list" where
  "embed StringToNumber T query =
     andThen (targetDate StringToNumber T query) (\<lambda>target. content T query target)"

subsection \<open>A runtime to evaluate the model with\<close>

text \<open>
  \<open>decimalToNumber\<close> agrees with \<^verbatim>\<open>StringToNumber\<close> on the strings of decimal digits (the
  empty string is 0) and on the strings that hold a character no numeric literal
  contains. \<open>symbolicTemporal\<close> accepts every request and records it.
\<close>

definition decimalToNumber :: "string \<Rightarrow> number" where
  "decimalToNumber s =
     (if list_all (\<lambda>c. 48 \<le> (of_char c :: nat) \<and> (of_char c :: nat) \<le> 57) s
      then Finite (of_nat (foldl (\<lambda>n c. 10 * n + (of_char c - 48)) 0 s))
      else NaN)"

datatype zoned = Zoned string int int int int int | InZone zoned string

definition symbolicTemporal :: "(zoned, zoned) temporal" where
  "symbolicTemporal =
     \<lparr>zonedDateTimeFrom = (\<lambda>tz y mo d h mi. Inr (Zoned (toString tz) y mo d h mi)),
      toInstant = (\<lambda>z. z),
      toZonedDateTimeISO = (\<lambda>i tz. Inr (InZone i tz))\<rparr>"

section \<open>The \<^verbatim>\<open>/screenshot.png\<close> handler\<close>

text \<open>
  The state the handler works on: the in-memory index \<^verbatim>\<open>screenshotCache\<close> (an object
  from cache key to path, by its entries in insertion order), the regular files on disk,
  and the paths at which the process can create or overwrite a file (the directory
  exists and permits it). A file holds the bytes of an image or the JSON text of an index;
  \<open>Json entries\<close> is the text \<^verbatim>\<open>JSON.stringify(screenshotCache, null, 4)\<close> of the object
  with these entries.
\<close>

datatype fileContent = Buffer string | Json "(string \<times> string) list"

record state =
  screenshotCache :: "(string \<times> string) list"
  files :: "string \<Rightarrow> fileContent option"
  writable :: "string \<Rightarrow> bool"

text \<open>
  The file-system calls. \<^verbatim>\<open>rm\<close> is called without \<^verbatim>\<open>force\<close>, so it rejects a path
  that does not exist. \<^verbatim>\<open>writeFile\<close> creates or replaces the file, and rejects a path
  that cannot be written; \<open>EACCES\<close> stands for every such rejection.
\<close>

definition existsSync :: "state \<Rightarrow> string \<Rightarrow> bool" where
  "existsSync s p = (files s p \<noteq> None)"

definition readFile :: "state \<Rightarrow> string \<Rightarrow> error + fileContent" where
  "readFile s p = (case files s p of None \<Rightarrow> Inl ENOENT | Some c \<Rightarrow> Inr c)"

definition rm :: "state \<Rightarrow> string \<Rightarrow> error + state" where
  "rm s p = (case files s p of None \<Rightarrow> Inl ENOENT | Some c \<Rightarrow> Inr (s\<lparr>files := (files s)(p := None)\<rparr>))"

definition writeFile :: "state \<Rightarrow> string \<Rightarrow> fileContent \<Rightarrow> error + state" where
  "writeFile s p c = (if writable s p then Inr (s\<lparr>files := (files s)(p \<mapsto> c)\<rparr>) else Inl EACCES)"

text \<open>\<^verbatim>\<open>join(__dirname, '.tmp', file)\<close> for a normalised directory name.\<close>

definition tmpPath :: "string \<Rightarrow> string \<Rightarrow> string" where
  "tmpPath dirname file = dirname @ ''/.tmp/'' @ file"

text \<open>
  The first statement of the handler after the key is derived (lines 149 to 156):
  \<^verbatim>\<open>if (cacheSlug in screenshotCache && existsSync(screenshotCache[cacheSlug])) { ...; return; }\<close>
  \<^verbatim>\<open>else if (screenshotCache[cacheSlug]) { await rm(screenshotCache[cacheSlug]); delete screenshotCache[cacheSlug]; }\<close>.
  A hit when the key is in the index and its file exists; otherwise, when the recorded
  path is a non-empty string, the file is removed and then the entry deleted, and an
  exception of \<^verbatim>\<open>rm\<close> leaves the handler before the entry is deleted. \<open>Some p\<close> is a hit,
  \<open>None\<close> a miss.
\<close>

definition lookup :: "string \<Rightarrow> state \<Rightarrow> (error + string option) \<times> state" where
  "lookup cacheSlug s =
     (case map_of (screenshotCache s) cacheSlug of
        None \<Rightarrow> (Inr None, s)
      | Some p \<Rightarrow>
          if existsSync s p then (Inr (Some p), s)
          else if p \<noteq> [] then
            (case rm s p of
               Inl e \<Rightarrow> (Inl e, s)
             | Inr s' \<Rightarrow>
                 (Inr None, s'\<lparr>screenshotCache := AList.delete cacheSlug (screenshotCache s')\<rparr>))
          else (Inr None, s))"

text \<open>
  The last statements of the handler (lines 175 to 178):
  \<^verbatim>\<open>screenshotCache[cacheSlug] = join(__dirname, '.tmp', randomUUID() + '.png');\<close>
  \<^verbatim>\<open>await writeFile(screenshotCache[cacheSlug], image);\<close>
  \<^verbatim>\<open>await writeFile(join(__dirname, '.tmp', 'cache.json'), JSON.stringify(screenshotCache, null, 4));\<close>.
  The entry is set in memory, then the image is written, then the whole index. \<open>uuid\<close> is
  the result of \<^verbatim>\<open>randomUUID()\<close>.
\<close>

definition store :: "string \<Rightarrow> string \<Rightarrow> string \<Rightarrow> string \<Rightarrow> state \<Rightarrow> (error + string) \<times> state" where
  "store dirname uuid cacheSlug img s =
     (let p = tmpPath dirname (uuid @ ''.png'');
          s1 = s\<lparr>screenshotCache := AList.update cacheSlug p (screenshotCache s)\<rparr>
      in case writeFile s1 p (Buffer img) of
           Inl e \<Rightarrow> (Inl e, s1)
         | Inr s2 \<Rightarrow>
             (case writeFile s2 (tmpPath dirname ''cache.json'') (Json (screenshotCache s2)) of
                Inl e \<Rightarrow> (Inl e, s2)
              | Inr s3 \<Rightarrow> (Inr p, s3)))"

text \<open>
  The handler (lines 144 to 181). \<open>captured\<close> is what the browser returns for this
  request in lines 158 to 173 (the image, or a failure of the navigation, the locator or
  the screenshot). On a hit the response is the content of the cached file. The result
  is the response body or the exception, and the state the request leaves behind.
\<close>

definition screenshotHandler ::
  "(string \<Rightarrow> string \<Rightarrow> int) \<Rightarrow> string \<Rightarrow> error + string \<Rightarrow> string \<Rightarrow> QueryDictionary \<Rightarrow> state
    \<Rightarrow> (error + fileContent) \<times> state" where
  "screenshotHandler localeCompare dirname captured uuid query s =
     (let cacheSlug = toScreenshotCacheSlug localeCompare query in
      case lookup cacheSlug s of
        (Inl e, s1) \<Rightarrow> (Inl e, s1)
      | (Inr (Some p), s1) \<Rightarrow> (readFile s1 p, s1)
      | (Inr None, s1) \<Rightarrow>
          (case captured of
             Inl e \<Rightarrow> (Inl e, s1)
           | Inr img \<Rightarrow>
               (case store dirname uuid cacheSlug img s1 of
                  (Inl e, s2) \<Rightarrow> (Inl e, s2)
                | (Inr p, s2) \<Rightarrow> (Inr (Buffer img), s2))))"

section \<open>Lemmas on sorting\<close>

lemma mset_insertBy: "mset (insertBy cmp x xs) = add_mset x (mset xs)"
  by (induction xs) auto

lemma mset_sortArray: "mset (sortArray cmp xs) = mset xs"
  by (induction xs) (auto simp: sortArray_def mset_insertBy)

lemma set_sortArray: "set (sortArray cmp xs) = set xs"
  using mset_sortArray[of cmp xs] by (metis set_mset_mset)











section \<open>The cache key: order of the keys\<close>




section \<open>The cache key: sensitivity to the values\<close>

lemma join_Cons: "join sep (x # xs) = (if xs = [] then x else x @ sep @ join sep xs)"
  by (cases xs) auto





lemma rendered_value: "(case v of Arr vs \<Rightarrow> join '','' vs | Str s \<Rightarrow> s) = toString v"
  by (simp add: toString_def split: queryValue.splits)

lemma toScreenshotCacheSlug_toString:
  "toScreenshotCacheSlug localeCompare query =
     join '';'' (map (\<lambda>e. fst e @ CHR '':'' # toString (snd e)) (sortArray (byKey localeCompare) query))"
  by (simp add: toScreenshotCacheSlug_def rendered_value case_prod_unfold)







section \<open>The cache key: a sequence and its comma-joined string\<close>

lemma split_not_Nil: "split c s \<noteq> []"
  by (induction s) (auto split: list.splits)

lemma split_no_sep: "c \<notin> set x \<Longrightarrow> split c x = [x]"
  by (induction x) auto

lemma split_append_sep: "c \<notin> set x \<Longrightarrow> split c (x @ c # r) = x # split c r"
  by (induction x) (auto split: list.splits simp: split_not_Nil)

lemma split_join:
  assumes "vs \<noteq> []" "\<forall>v\<in>set vs. c \<notin> set v"
  shows "split c (join [c] vs) = vs"
  using assms
proof (induction vs)
  case Nil
  then show ?case by simp
next
  case (Cons v vs)
  show ?case
  proof (cases "vs = []")
    case True
    with Cons.prems show ?thesis by (simp add: split_no_sep)
  next
    case False
    with Cons have "split c (join [c] vs) = vs" by simp
    with False Cons.prems show ?thesis by (simp add: join_Cons split_append_sep)
  qed
qed

lemma map_insertBy:
  assumes "\<And>a b. cmp (f a) (f b) = cmp a b"
  shows "map f (insertBy cmp x xs) = insertBy cmp (f x) (map f xs)"
  by (induction xs) (simp_all add: assms)

lemma map_sortArray:
  assumes "\<And>a b. cmp (f a) (f b) = cmp a b"
  shows "map f (sortArray cmp xs) = sortArray cmp (map f xs)"
proof (induction xs)
  case Nil
  show ?case by (simp add: sortArray_def)
next
  case (Cons x xs)
  have "map f (sortArray cmp (x # xs)) = map f (insertBy cmp x (sortArray cmp xs))"
    by (simp add: sortArray_def)
  also have "\<dots> = insertBy cmp (f x) (map f (sortArray cmp xs))"
    using assms by (rule map_insertBy)
  also have "\<dots> = sortArray cmp (map f (x # xs))"
    using Cons by (simp add: sortArray_def)
  finally show ?case .
qed

lemma slug_rendered:
  "toScreenshotCacheSlug localeCompare (map (\<lambda>e. (fst e, Str (toString (snd e)))) query)
     = toScreenshotCacheSlug localeCompare query"
proof -
  let ?r = "\<lambda>e :: string \<times> queryValue. (fst e, Str (toString (snd e)))"
  have "byKey localeCompare (?r a) (?r b) = byKey localeCompare a b" for a b
    by (simp add: byKey_def case_prod_unfold)
  then have "sortArray (byKey localeCompare) (map ?r query)
      = map ?r (sortArray (byKey localeCompare) query)"
    by (simp add: map_sortArray)
  then show ?thesis
    by (simp add: toScreenshotCacheSlug_toString toString_def comp_def)
qed

text \<open>
  Claim C10, amended. A parameter bound to the sequence \<open>vs\<close> and the same parameter
  bound to the comma-joined string of \<open>vs\<close> always get the same cache key. For
  \<^verbatim>\<open>additionalTimezones\<close> the two encodings give the same display rows when \<open>vs\<close> is not
  empty and none of its elements holds a comma.
\<close>

theorem sequence_aliases_comma_joined_string:
  "toScreenshotCacheSlug localeCompare (before @ (key, Str (join '','' vs)) # after)
     = toScreenshotCacheSlug localeCompare (before @ (key, Arr vs) # after) \<and>
   (vs \<noteq> [] \<and> (\<forall>v\<in>set vs. CHR '','' \<notin> set v) \<and>
    map_of query ''additionalTimezones'' = Some (Arr vs) \<and>
    map_of query' ''additionalTimezones'' = Some (Str (join '','' vs))
    \<longrightarrow> keyFormats query' = keyFormats query)"
proof
  let ?r = "\<lambda>e :: string \<times> queryValue. (fst e, Str (toString (snd e)))"
  have eq: "map ?r (before @ (key, Str (join '','' vs)) # after) = map ?r (before @ (key, Arr vs) # after)"
    by (simp add: toString_def)
  have "toScreenshotCacheSlug localeCompare (before @ (key, Str (join '','' vs)) # after)
      = toScreenshotCacheSlug localeCompare (map ?r (before @ (key, Str (join '','' vs)) # after))"
    by (rule slug_rendered[symmetric])
  also have "\<dots> = toScreenshotCacheSlug localeCompare (map ?r (before @ (key, Arr vs) # after))"
    by (simp only: eq)
  also have "\<dots> = toScreenshotCacheSlug localeCompare (before @ (key, Arr vs) # after)"
    by (rule slug_rendered)
  finally show "toScreenshotCacheSlug localeCompare (before @ (key, Str (join '','' vs)) # after)
     = toScreenshotCacheSlug localeCompare (before @ (key, Arr vs) # after)" .
next
  show "vs \<noteq> [] \<and> (\<forall>v\<in>set vs. CHR '','' \<notin> set v) \<and>
    map_of query ''additionalTimezones'' = Some (Arr vs) \<and>
    map_of query' ''additionalTimezones'' = Some (Str (join '','' vs))
    \<longrightarrow> keyFormats query' = keyFormats query"
  proof
    assume h: "vs \<noteq> [] \<and> (\<forall>v\<in>set vs. CHR '','' \<notin> set v) \<and>
      map_of query ''additionalTimezones'' = Some (Arr vs) \<and>
      map_of query' ''additionalTimezones'' = Some (Str (join '','' vs))"
    then have "split CHR '','' (join '','' vs) = vs" using split_join[of vs "CHR '',''"] by simp
    with h show "keyFormats query' = keyFormats query"
      by (simp add: keyFormats_def additionalTimezones_def)
  qed
qed

text \<open>
  The theorem at the two encodings of two additional zones.
\<close>

theorem sequence_aliases_comma_joined_string_witness:
  "toScreenshotCacheSlug sampleCompare [(''additionalTimezones'', Str ''Asia/Tokyo,Europe/Paris'')]
     = toScreenshotCacheSlug sampleCompare [(''additionalTimezones'', Arr [''Asia/Tokyo'', ''Europe/Paris''])] \<and>
   keyFormats [(''additionalTimezones'', Str ''Asia/Tokyo,Europe/Paris'')]
     = keyFormats [(''additionalTimezones'', Arr [''Asia/Tokyo'', ''Europe/Paris''])]"
proof -
  let ?vs = "[''Asia/Tokyo'', ''Europe/Paris'']"
  let ?q = "[(''additionalTimezones'', Arr ?vs)]"
  let ?q' = "[(''additionalTimezones'', Str (join '','' ?vs))]"
  have j: "join '','' ?vs = ''Asia/Tokyo,Europe/Paris''" by simp
  have h: "?vs \<noteq> [] \<and> (\<forall>v\<in>set ?vs. CHR '','' \<notin> set v) \<and>
    map_of ?q ''additionalTimezones'' = Some (Arr ?vs) \<and>
    map_of ?q' ''additionalTimezones'' = Some (Str (join '','' ?vs))"
    by simp
  from sequence_aliases_comma_joined_string[of sampleCompare "[]" "''additionalTimezones''" ?vs "[]" ?q ?q'] h
  have "toScreenshotCacheSlug sampleCompare ?q' = toScreenshotCacheSlug sampleCompare ?q \<and>
    keyFormats ?q' = keyFormats ?q"
    by (simp only: append_Nil) blast
  then show ?thesis by (simp only: j)
qed

text \<open>
  Claim C10 as stated, for every list of strings, fails for the rows: an element that
  holds a comma is one row as part of a sequence and two rows after the join (the
  repeated parameter
  \<^verbatim>\<open>additionalTimezones=Asia/Tokyo%2CEurope/Paris&additionalTimezones=Etc/UTC\<close> against
  \<^verbatim>\<open>additionalTimezones=Asia/Tokyo,Europe/Paris,Etc/UTC\<close>), and the empty sequence gives no
  row where its join, the empty string, gives one row with an empty zone. The cache keys
  of the two encodings are the same, so the two tables share one cached screenshot.
\<close>

theorem sequence_rows_differ_counterexample:
  "keyFormats [(''additionalTimezones'', Str (join '','' [''Asia/Tokyo,Europe/Paris'', ''Etc/UTC'']))]
     \<noteq> keyFormats [(''additionalTimezones'', Arr [''Asia/Tokyo,Europe/Paris'', ''Etc/UTC''])] \<and>
   keyFormats [(''additionalTimezones'', Str (join '','' []))]
     \<noteq> keyFormats [(''additionalTimezones'', Arr [])]"
  by (simp add: keyFormats_def additionalTimezones_def)

section \<open>The \<^verbatim>\<open>/embed\<close> handler: defaults and malformed parameters\<close>

lemma andThen_simps: "andThen (Inl e) f = Inl e" "andThen (Inr x) f = f x"
  by (simp_all add: andThen_def)

lemma truncate_default: "toIntegerWithTruncation (Finite (of_int n)) = Inr n"
  by (simp add: toIntegerWithTruncation_def)








section \<open>The \<^verbatim>\<open>/embed\<close> handler: the rows\<close>




lemma andThen_Inr: "andThen r f = Inr y \<longleftrightarrow> (\<exists>x. r = Inr x \<and> f x = Inr y)"
  by (cases r) (simp_all add: andThen_def)

lemma mapE_Inr:
  "mapE f xs = Inr ys \<Longrightarrow> y \<in> set ys \<Longrightarrow> \<exists>x\<in>set xs. f x = Inr y"
proof (induction xs arbitrary: ys)
  case Nil
  then show ?case by simp
next
  case (Cons x xs)
  from Cons.prems(1) obtain z zs where z: "f x = Inr z" "mapE f xs = Inr zs" "ys = z # zs"
    by (auto simp: andThen_Inr)
  with Cons show ?case by auto
qed

lemma shown_time_in_table:
  assumes "tableRows T query target = Inr rows"
  shows "\<forall>r\<in>set rows.
    if looseEq (rowZone r) (mainTimezone query) then shown r = target
    else toZonedDateTimeISO T (toInstant T target) (rowZone r) = Inr (shown r)"
proof
  fix r assume r: "r \<in> set rows"
  from assms obtain mapped where
    m: "mapE (zoneRow T (mainTimezone query) target) (keyFormats query) = Inr mapped"
    and rows: "rows = mainRow query target @ mapped"
    by (auto simp: tableRows_def andThen_Inr)
  from r rows consider "r \<in> set (mainRow query target)" | "r \<in> set mapped" by auto
  then show "if looseEq (rowZone r) (mainTimezone query) then shown r = target
    else toZonedDateTimeISO T (toInstant T target) (rowZone r) = Inr (shown r)"
  proof cases
    case 1
    then show ?thesis by (auto simp: mainRow_def looseEq_def split: if_splits)
  next
    case 2
    with m obtain f where "zoneRow T (mainTimezone query) target f = Inr r"
      using mapE_Inr[OF m 2] by blast
    then show ?thesis
      by (auto simp: zoneRow_def resultDatetime_def andThen_Inr split: if_splits)
  qed
qed

lemma content_blocks:
  "tableRows T query target = Inr rows \<Longrightarrow>
   content T query target = Inr [(''normal'', rows), (''wingdings'', rows), (''aurebesh'', rows)]"
  by (simp add: content_def styles_def andThen_simps)

lemma content_Inr:
  assumes "content T query target = Inr blocks" "(clss, rows) \<in> set blocks"
  shows "tableRows T query target = Inr rows"
proof -
  from mapE_Inr[OF assms[unfolded content_def]]
  obtain c where "andThen (tableRows T query target) (\<lambda>rows. Inr (c, rows)) = Inr (clss, rows)"
    by blast
  then show ?thesis by (auto simp: andThen_Inr)
qed

text \<open>
  Claim C5. The empty query uses the zone America/Denver, the date 2024-01-12 16:00 in
  that zone and the locale en-US (the locale of the row in front, which the empty query
  does not have; the built-in rows are formatted with their own locales). When the
  library builds that date and converts its instant into the other four built-in zones,
  the response has, for each of the three styles, a table body of exactly the five
  built-in rows, each once, with no row in front; the row of the default zone shows the
  main date itself.
\<close>

theorem empty_query_defaults:
  assumes "zonedDateTimeFrom T (Str ''America/Denver'') 2024 1 12 16 0 = Inr target"
    and "\<forall>tz\<in>set [''America/Los_Angeles'', ''America/New_York'', ''Australia/Sydney'', ''Etc/UTC''].
      \<not> isl (toZonedDateTimeISO T (toInstant T target) tz)"
  shows "mainTimezone [] = Str ''America/Denver'' \<and>
    queryLocale [] = Str ''en-US'' \<and>
    targetDate StringToNumber T [] = zonedDateTimeFrom T (Str ''America/Denver'') 2024 1 12 16 0 \<and>
    keyFormats [] = builtinFormats \<and>
    mainRow [] target = [] \<and>
    (\<exists>rows. embed StringToNumber T []
         = Inr [(''normal'', rows), (''wingdings'', rows), (''aurebesh'', rows)] \<and>
       length rows = 5 \<and>
       map label rows = [''Ward Radio HQ'', ''US East Coasters'', ''Mormon Central Time (Utah)'',
                         ''Sydney, AU'', ''UTC/Zulu/GMT''] \<and>
       map rowZone rows = [''America/Los_Angeles'', ''America/New_York'', ''America/Denver'',
                           ''Australia/Sydney'', ''Etc/UTC''] \<and>
       map formatLocale rows = [Str ''en-US'', Str ''en-US'', Str ''en-US'', Str ''en-AU'', Str ''en-GB''] \<and>
       distinct (map label rows) \<and> distinct (map rowZone rows) \<and>
       (\<forall>r\<in>set rows. rowZone r = ''America/Denver'' \<longrightarrow> shown r = target))"
proof -
  from assms(2) obtain la ny sy utc where conv:
    "toZonedDateTimeISO T (toInstant T target) ''America/Los_Angeles'' = Inr la"
    "toZonedDateTimeISO T (toInstant T target) ''America/New_York'' = Inr ny"
    "toZonedDateTimeISO T (toInstant T target) ''Australia/Sydney'' = Inr sy"
    "toZonedDateTimeISO T (toInstant T target) ''Etc/UTC'' = Inr utc"
    by (auto simp: isl_def) (metis sum.exhaust_sel isl_def)
  have tz: "mainTimezone [] = Str ''America/Denver''" by (simp add: mainTimezone_def)
  have loc: "queryLocale [] = Str ''en-US''" by (simp add: queryLocale_def)
  have date: "targetDate StringToNumber T [] = zonedDateTimeFrom T (Str ''America/Denver'') 2024 1 12 16 0"
    using truncate_default[of 2024] truncate_default[of 1] truncate_default[of 12]
      truncate_default[of 16] truncate_default[of 0]
    by (simp add: targetDate_def numberOr_def tz andThen_simps)
  have kf: "keyFormats [] = builtinFormats" by (simp add: keyFormats_def additionalTimezones_def)
  have mr: "mainRow [] target = []"
    by (simp add: mainRow_def kf tz builtinFormats_def looseEq_def toString_def)
  let ?rows = "[\<lparr>label = ''Ward Radio HQ'', rowZone = ''America/Los_Angeles'', shown = la, formatLocale = Str ''en-US''\<rparr>,
       \<lparr>label = ''US East Coasters'', rowZone = ''America/New_York'', shown = ny, formatLocale = Str ''en-US''\<rparr>,
       \<lparr>label = ''Mormon Central Time (Utah)'', rowZone = ''America/Denver'', shown = target, formatLocale = Str ''en-US''\<rparr>,
       \<lparr>label = ''Sydney, AU'', rowZone = ''Australia/Sydney'', shown = sy, formatLocale = Str ''en-AU''\<rparr>,
       \<lparr>label = ''UTC/Zulu/GMT'', rowZone = ''Etc/UTC'', shown = utc, formatLocale = Str ''en-GB''\<rparr>]"
  have rows: "tableRows T [] target = Inr ?rows"
    by (simp add: tableRows_def kf mr tz builtinFormats_def zoneRow_def resultDatetime_def
        looseEq_def toString_def conv andThen_simps)
  have "embed StringToNumber T [] = content T [] target"
    by (simp add: embed_def date assms(1) andThen_simps)
  with content_blocks[OF rows]
  have e: "embed StringToNumber T [] = Inr [(''normal'', ?rows), (''wingdings'', ?rows), (''aurebesh'', ?rows)]"
    by simp
  have ex: "\<exists>rows. embed StringToNumber T []
         = Inr [(''normal'', rows), (''wingdings'', rows), (''aurebesh'', rows)] \<and>
       length rows = 5 \<and>
       map label rows = [''Ward Radio HQ'', ''US East Coasters'', ''Mormon Central Time (Utah)'',
                         ''Sydney, AU'', ''UTC/Zulu/GMT''] \<and>
       map rowZone rows = [''America/Los_Angeles'', ''America/New_York'', ''America/Denver'',
                           ''Australia/Sydney'', ''Etc/UTC''] \<and>
       map formatLocale rows = [Str ''en-US'', Str ''en-US'', Str ''en-US'', Str ''en-AU'', Str ''en-GB''] \<and>
       distinct (map label rows) \<and> distinct (map rowZone rows) \<and>
       (\<forall>r\<in>set rows. rowZone r = ''America/Denver'' \<longrightarrow> shown r = target)"
    by (rule exI[of _ ?rows]) (simp add: e)
  from tz loc date kf mr ex show ?thesis by (intro conjI)
qed

text \<open>
  The theorem with the symbolic library: the date requested and the five rows.
\<close>

theorem empty_query_defaults_witness:
  "targetDate decimalToNumber symbolicTemporal [] = Inr (Zoned ''America/Denver'' 2024 1 12 16 0) \<and>
   (\<exists>rows. embed decimalToNumber symbolicTemporal []
        = Inr [(''normal'', rows), (''wingdings'', rows), (''aurebesh'', rows)] \<and>
      length rows = 5 \<and>
      map label rows = [''Ward Radio HQ'', ''US East Coasters'', ''Mormon Central Time (Utah)'',
                        ''Sydney, AU'', ''UTC/Zulu/GMT''])"
proof -
  let ?z = "Zoned ''America/Denver'' 2024 1 12 16 0"
  have f: "zonedDateTimeFrom symbolicTemporal (Str ''America/Denver'') 2024 1 12 16 0 = Inr ?z"
    by (simp add: symbolicTemporal_def toString_def)
  have h: "\<forall>tz\<in>set [''America/Los_Angeles'', ''America/New_York'', ''Australia/Sydney'', ''Etc/UTC''].
      \<not> isl (toZonedDateTimeISO symbolicTemporal (toInstant symbolicTemporal ?z) tz)"
    by (simp add: symbolicTemporal_def)
  note t = empty_query_defaults[OF f h, of decimalToNumber]
  from t have "targetDate decimalToNumber symbolicTemporal []
      = zonedDateTimeFrom symbolicTemporal (Str ''America/Denver'') 2024 1 12 16 0"
    by (elim conjE)
  then have a: "targetDate decimalToNumber symbolicTemporal [] = Inr ?z"
    by (simp only: f)
  from t obtain rows where
    "embed decimalToNumber symbolicTemporal []
        = Inr [(''normal'', rows), (''wingdings'', rows), (''aurebesh'', rows)]"
    "length rows = 5"
    "map label rows = [''Ward Radio HQ'', ''US East Coasters'', ''Mormon Central Time (Utah)'',
                        ''Sydney, AU'', ''UTC/Zulu/GMT'']"
    by (elim conjE exE)
  then have "\<exists>rows. embed decimalToNumber symbolicTemporal []
        = Inr [(''normal'', rows), (''wingdings'', rows), (''aurebesh'', rows)] \<and>
      length rows = 5 \<and>
      map label rows = [''Ward Radio HQ'', ''US East Coasters'', ''Mormon Central Time (Utah)'',
                        ''Sydney, AU'', ''UTC/Zulu/GMT'']"
    by (intro exI[of _ rows] conjI)
  with a show ?thesis by (rule conjI)
qed

text \<open>
  Claim C7. Every row that the handler renders, in each of the three blocks and the row
  in front included, shows the main zoned date-time itself when its zone equals the main
  zone, and otherwise the instant of the main date-time converted into its zone.
\<close>

theorem shown_time_of_every_row:
  assumes "embed StringToNumber T query = Inr blocks"
  shows "\<exists>target. targetDate StringToNumber T query = Inr target \<and>
    (\<forall>(clss, rows)\<in>set blocks. \<forall>r\<in>set rows.
       if looseEq (rowZone r) (mainTimezone query) then shown r = target
       else toZonedDateTimeISO T (toInstant T target) (rowZone r) = Inr (shown r))"
proof -
  from assms obtain target where t: "targetDate StringToNumber T query = Inr target"
    and c: "content T query target = Inr blocks"
    by (auto simp: embed_def andThen_Inr)
  have "if looseEq (rowZone r) (mainTimezone query) then shown r = target
       else toZonedDateTimeISO T (toInstant T target) (rowZone r) = Inr (shown r)"
    if "(clss, rows) \<in> set blocks" "r \<in> set rows" for clss rows r
  proof -
    from content_Inr[OF c that(1)] have "tableRows T query target = Inr rows" .
    from shown_time_in_table[OF this] that(2) show ?thesis by blast
  qed
  with t show ?thesis by blast
qed

text \<open>
  The theorem at \<^verbatim>\<open>tz=Etc/UTC\<close> with the symbolic library: in each block four converted
  rows, and the row of the main zone showing the main date-time.
\<close>

theorem shown_time_of_every_row_witness:
  "targetDate decimalToNumber symbolicTemporal [(''tz'', Str ''Etc/UTC'')]
     = Inr (Zoned ''Etc/UTC'' 2024 1 12 16 0) \<and>
   (\<exists>rows. embed decimalToNumber symbolicTemporal [(''tz'', Str ''Etc/UTC'')]
        = Inr [(''normal'', rows), (''wingdings'', rows), (''aurebesh'', rows)] \<and>
      map shown rows
        = [InZone (Zoned ''Etc/UTC'' 2024 1 12 16 0) ''America/Los_Angeles'',
           InZone (Zoned ''Etc/UTC'' 2024 1 12 16 0) ''America/New_York'',
           InZone (Zoned ''Etc/UTC'' 2024 1 12 16 0) ''America/Denver'',
           InZone (Zoned ''Etc/UTC'' 2024 1 12 16 0) ''Australia/Sydney'',
           Zoned ''Etc/UTC'' 2024 1 12 16 0] \<and>
      list_all (\<lambda>r. if looseEq (rowZone r) (mainTimezone [(''tz'', Str ''Etc/UTC'')])
                    then shown r = Zoned ''Etc/UTC'' 2024 1 12 16 0
                    else toZonedDateTimeISO symbolicTemporal
                           (toInstant symbolicTemporal (Zoned ''Etc/UTC'' 2024 1 12 16 0)) (rowZone r)
                           = Inr (shown r))
        rows)"
proof -
  let ?q = "[(''tz'', Str ''Etc/UTC'')]"
  let ?z = "Zoned ''Etc/UTC'' 2024 1 12 16 0"
  let ?rows = "[\<lparr>label = ''Ward Radio HQ'', rowZone = ''America/Los_Angeles'',
          shown = InZone ?z ''America/Los_Angeles'', formatLocale = Str ''en-US''\<rparr>,
         \<lparr>label = ''US East Coasters'', rowZone = ''America/New_York'',
          shown = InZone ?z ''America/New_York'', formatLocale = Str ''en-US''\<rparr>,
         \<lparr>label = ''Mormon Central Time (Utah)'', rowZone = ''America/Denver'',
          shown = InZone ?z ''America/Denver'', formatLocale = Str ''en-US''\<rparr>,
         \<lparr>label = ''Sydney, AU'', rowZone = ''Australia/Sydney'',
          shown = InZone ?z ''Australia/Sydney'', formatLocale = Str ''en-AU''\<rparr>,
         \<lparr>label = ''UTC/Zulu/GMT'', rowZone = ''Etc/UTC'',
          shown = ?z, formatLocale = Str ''en-GB''\<rparr>]"
  have td: "targetDate decimalToNumber symbolicTemporal ?q = Inr ?z"
    using truncate_default[of 2024] truncate_default[of 1] truncate_default[of 12]
      truncate_default[of 16] truncate_default[of 0]
    by (simp add: targetDate_def numberOr_def mainTimezone_def toString_def andThen_simps
        symbolicTemporal_def)
  have tr: "tableRows symbolicTemporal ?q ?z = Inr ?rows"
    by (simp add: tableRows_def keyFormats_def builtinFormats_def additionalTimezones_def
        zoneRow_def resultDatetime_def looseEq_def mainTimezone_def toString_def mainRow_def
        andThen_def symbolicTemporal_def)
  have run: "embed decimalToNumber symbolicTemporal ?q
      = Inr [(''normal'', ?rows), (''wingdings'', ?rows), (''aurebesh'', ?rows)]"
    by (simp only: embed_def td andThen_simps content_blocks[OF tr])
  from shown_time_of_every_row[OF run] obtain target where
    t: "targetDate decimalToNumber symbolicTemporal ?q = Inr target"
    and all: "\<forall>(clss, rows)\<in>set [(''normal'', ?rows), (''wingdings'', ?rows), (''aurebesh'', ?rows)].
       \<forall>r\<in>set rows.
         if looseEq (rowZone r) (mainTimezone ?q) then shown r = target
         else toZonedDateTimeISO symbolicTemporal (toInstant symbolicTemporal target) (rowZone r)
                = Inr (shown r)"
    by (elim exE conjE)
  have "(''normal'', ?rows) \<in> set [(''normal'', ?rows), (''wingdings'', ?rows), (''aurebesh'', ?rows)]"
    by (simp only: list.set insertI1)
  with all have "case (''normal'', ?rows) of (clss, rows) \<Rightarrow>
       \<forall>r\<in>set rows.
         if looseEq (rowZone r) (mainTimezone ?q) then shown r = target
         else toZonedDateTimeISO symbolicTemporal (toInstant symbolicTemporal target) (rowZone r)
                = Inr (shown r)"
    by (rule bspec)
  then have la: "list_all (\<lambda>r. if looseEq (rowZone r) (mainTimezone ?q) then shown r = target
         else toZonedDateTimeISO symbolicTemporal (toInstant symbolicTemporal target) (rowZone r)
                = Inr (shown r)) ?rows"
    by (simp only: prod.case list_all_iff)
  from t td have "target = ?z" by simp
  with la have la': "list_all (\<lambda>r. if looseEq (rowZone r) (mainTimezone ?q) then shown r = ?z
         else toZonedDateTimeISO symbolicTemporal (toInstant symbolicTemporal ?z) (rowZone r)
                = Inr (shown r)) ?rows"
    by (simp only:)
  have sh: "map shown ?rows = [InZone ?z ''America/Los_Angeles'', InZone ?z ''America/New_York'',
      InZone ?z ''America/Denver'', InZone ?z ''Australia/Sydney'', ?z]"
    by simp
  from run sh la' have "\<exists>rows. embed decimalToNumber symbolicTemporal ?q
        = Inr [(''normal'', rows), (''wingdings'', rows), (''aurebesh'', rows)] \<and>
      map shown rows = [InZone ?z ''America/Los_Angeles'', InZone ?z ''America/New_York'',
      InZone ?z ''America/Denver'', InZone ?z ''Australia/Sydney'', ?z] \<and>
      list_all (\<lambda>r. if looseEq (rowZone r) (mainTimezone ?q) then shown r = ?z
         else toZonedDateTimeISO symbolicTemporal (toInstant symbolicTemporal ?z) (rowZone r)
                = Inr (shown r)) rows"
    by (intro exI[of _ ?rows] conjI)
  with td show ?thesis by (rule conjI)
qed

section \<open>The screenshot cache\<close>

text \<open>
  A cache key is empty or holds a colon, so it is never the name of a property that
  the index object inherits (\<^verbatim>\<open>constructor\<close>, \<^verbatim>\<open>__proto__\<close>, ...): the \<^verbatim>\<open>in\<close> test and
  the indexing of the handler read the entries of the object only.
\<close>

lemma join_colon:
  assumes "xs \<noteq> []" "\<forall>x\<in>set xs. CHR '':'' \<in> set x"
  shows "CHR '':'' \<in> set (join sep xs)"
proof -
  from assms(1) obtain x xs' where xs: "xs = x # xs'" by (cases xs) auto
  with assms(2) have "CHR '':'' \<in> set x" by simp
  with xs show ?thesis by (simp add: join_Cons)
qed

lemma slug_shape:
  "toScreenshotCacheSlug localeCompare query = [] \<or>
   CHR '':'' \<in> set (toScreenshotCacheSlug localeCompare query)"
proof (cases "query = []")
  case True
  then show ?thesis by (simp add: toScreenshotCacheSlug_def sortArray_def)
next
  case False
  then have "sortArray (byKey localeCompare) query \<noteq> []"
    using set_sortArray[of "byKey localeCompare" query] by auto
  then have "CHR '':'' \<in> set (join '';'' (map (\<lambda>e. fst e @ CHR '':'' # toString (snd e)) (sortArray (byKey localeCompare) query)))"
    by (intro join_colon) simp_all
  then show ?thesis by (simp add: toScreenshotCacheSlug_toString)
qed

lemma png_path_not_index_path: "tmpPath dirname (uuid @ ''.png'') \<noteq> tmpPath dirname ''cache.json''"
proof
  assume "tmpPath dirname (uuid @ ''.png'') = tmpPath dirname ''cache.json''"
  then have "uuid @ ''.png'' = ''cache.json''" by (simp add: tmpPath_def)
  then have "last (uuid @ ''.png'') = last ''cache.json''" by simp
  then show False by simp
qed

lemma store_result:
  assumes "store dirname uuid cacheSlug img s = (Inr p, s')"
  shows "p = tmpPath dirname (uuid @ ''.png'')"
    and "screenshotCache s' = AList.update cacheSlug p (screenshotCache s)"
    and "files s' = (files s)(p \<mapsto> Buffer img, tmpPath dirname ''cache.json'' \<mapsto> Json (screenshotCache s'))"
    and "writable s' = writable s"
  using assms
  by (auto simp: store_def Let_def writeFile_def split: if_splits)

lemma store_persists:
  assumes "store dirname uuid cacheSlug img s = (Inr p, s')"
  shows "files s' (tmpPath dirname ''cache.json'') = Some (Json (screenshotCache s'))"
  using store_result(3)[OF assms] by simp

text \<open>
  Claim C3 fails on the code. When the key is in the index, its path is a non-empty
  string and no file is at the path, the handler calls \<^verbatim>\<open>rm\<close> on the missing file; the
  call rejects, the handler throws before it deletes the entry, and the state is what
  it was: the request fails and the index still holds the stale key.
\<close>

theorem stale_entry_is_not_healed:
  assumes "map_of (screenshotCache s) (toScreenshotCacheSlug localeCompare query) = Some p"
    and "p \<noteq> []" and "files s p = None"
  shows "lookup (toScreenshotCacheSlug localeCompare query) s = (Inl ENOENT, s) \<and>
    screenshotHandler localeCompare dirname captured uuid query s = (Inl ENOENT, s)"
  using assms by (simp add: screenshotHandler_def lookup_def existsSync_def rm_def)

text \<open>
  The theorem at an index with one entry whose file is gone.
\<close>

theorem stale_entry_is_not_healed_witness:
  "map_of [(''tz:Etc/UTC'', ''/srv/app/.tmp/u1.png'')]
      (toScreenshotCacheSlug sampleCompare [(''tz'', Str ''Etc/UTC'')]) = Some ''/srv/app/.tmp/u1.png'' \<and>
   screenshotHandler sampleCompare ''/srv/app'' (Inr ''PNG'') ''u2'' [(''tz'', Str ''Etc/UTC'')]
      \<lparr>screenshotCache = [(''tz:Etc/UTC'', ''/srv/app/.tmp/u1.png'')], files = Map.empty,
       writable = (\<lambda>p. True)\<rparr>
     = (Inl ENOENT,
        \<lparr>screenshotCache = [(''tz:Etc/UTC'', ''/srv/app/.tmp/u1.png'')], files = Map.empty,
         writable = (\<lambda>p. True)\<rparr>)"
proof -
  let ?s = "\<lparr>screenshotCache = [(''tz:Etc/UTC'', ''/srv/app/.tmp/u1.png'')], files = Map.empty,
       writable = (\<lambda>p. True)\<rparr>"
  have k: "toScreenshotCacheSlug sampleCompare [(''tz'', Str ''Etc/UTC'')] = ''tz:Etc/UTC''"
    by (simp add: toScreenshotCacheSlug_def sortArray_def)
  have a: "map_of (screenshotCache ?s) (toScreenshotCacheSlug sampleCompare [(''tz'', Str ''Etc/UTC'')])
      = Some ''/srv/app/.tmp/u1.png''"
    by (simp add: k)
  have b: "''/srv/app/.tmp/u1.png'' \<noteq> []" by simp
  have c: "files ?s ''/srv/app/.tmp/u1.png'' = None" by simp
  from stale_entry_is_not_healed[OF a b c, of "''/srv/app''" "Inr ''PNG''" "''u2''"] a
  show ?thesis by simp
qed

text \<open>
  Claim C8, amended. A request that completes without error and changes the index
  leaves the index file holding the whole in-memory index. The entry is set in memory
  before the image is written, so nothing more holds of a request that fails.
\<close>

theorem completed_request_persists_index:
  assumes "screenshotHandler localeCompare dirname captured uuid query s = (Inr body, s')"
    and "screenshotCache s' \<noteq> screenshotCache s"
  shows "files s' (tmpPath dirname ''cache.json'') = Some (Json (screenshotCache s'))"
proof -
  let ?k = "toScreenshotCacheSlug localeCompare query"
  obtain r s1 where lk: "lookup ?k s = (r, s1)" by (cases "lookup ?k s")
  show ?thesis
  proof (cases r)
    case (Inl e)
    with lk assms(1) show ?thesis by (simp add: screenshotHandler_def)
  next
    case (Inr hit)
    show ?thesis
    proof (cases hit)
      case (Some p)
      with Inr lk have "s1 = s"
        by (auto simp: lookup_def split: option.splits if_splits sum.splits)
      with Some Inr lk assms show ?thesis by (simp add: screenshotHandler_def)
    next
      case None
      with Inr lk assms(1) obtain img p where "store dirname uuid ?k img s1 = (Inr p, s')"
        by (auto simp: screenshotHandler_def split: sum.splits prod.splits)
      then show ?thesis by (rule store_persists)
    qed
  qed
qed

text \<open>
  The theorem at a first request with an empty cache.
\<close>

theorem completed_request_persists_index_witness:
  "screenshotHandler sampleCompare ''/srv/app'' (Inr ''PNG'') ''u1'' [(''tz'', Str ''Etc/UTC'')]
      \<lparr>screenshotCache = [], files = Map.empty, writable = (\<lambda>p. True)\<rparr>
     = (Inr (Buffer ''PNG''),
        \<lparr>screenshotCache = [(''tz:Etc/UTC'', ''/srv/app/.tmp/u1.png'')],
         files = [''/srv/app/.tmp/u1.png'' \<mapsto> Buffer ''PNG'',
                  ''/srv/app/.tmp/cache.json'' \<mapsto> Json [(''tz:Etc/UTC'', ''/srv/app/.tmp/u1.png'')]],
         writable = (\<lambda>p. True)\<rparr>) \<and>
   files
      \<lparr>screenshotCache = [(''tz:Etc/UTC'', ''/srv/app/.tmp/u1.png'')],
       files = [''/srv/app/.tmp/u1.png'' \<mapsto> Buffer ''PNG'',
                ''/srv/app/.tmp/cache.json'' \<mapsto> Json [(''tz:Etc/UTC'', ''/srv/app/.tmp/u1.png'')]],
       writable = (\<lambda>p. True)\<rparr>
      (tmpPath ''/srv/app'' ''cache.json'')
     = Some (Json [(''tz:Etc/UTC'', ''/srv/app/.tmp/u1.png'')])"
proof -
  let ?s = "\<lparr>screenshotCache = [], files = Map.empty, writable = (\<lambda>p. True)\<rparr>"
  let ?s' = "\<lparr>screenshotCache = [(''tz:Etc/UTC'', ''/srv/app/.tmp/u1.png'')],
         files = [''/srv/app/.tmp/u1.png'' \<mapsto> Buffer ''PNG'',
                  ''/srv/app/.tmp/cache.json'' \<mapsto> Json [(''tz:Etc/UTC'', ''/srv/app/.tmp/u1.png'')]],
         writable = (\<lambda>p. True)\<rparr>"
  have k: "toScreenshotCacheSlug sampleCompare [(''tz'', Str ''Etc/UTC'')] = ''tz:Etc/UTC''"
    by (simp add: toScreenshotCacheSlug_def sortArray_def)
  have run: "screenshotHandler sampleCompare ''/srv/app'' (Inr ''PNG'') ''u1'' [(''tz'', Str ''Etc/UTC'')] ?s
      = (Inr (Buffer ''PNG''), ?s')"
    by (simp add: screenshotHandler_def k lookup_def store_def Let_def writeFile_def tmpPath_def)
  have changed: "screenshotCache ?s' \<noteq> screenshotCache ?s" by simp
  from completed_request_persists_index[OF run changed] run show ?thesis by simp
qed

text \<open>
  Claim C8 as stated, for every mutation, fails: when the image cannot be written (the
  cache directory is missing), the entry has been added to the in-memory index and the
  index file is not written.
\<close>

theorem failed_store_leaves_index_unpersisted_counterexample:
  "fst (screenshotHandler sampleCompare ''/srv/app'' (Inr ''PNG'') ''u1'' [(''tz'', Str ''Etc/UTC'')]
          \<lparr>screenshotCache = [], files = Map.empty, writable = (\<lambda>p. False)\<rparr>) = Inl EACCES \<and>
   screenshotCache (snd (screenshotHandler sampleCompare ''/srv/app'' (Inr ''PNG'') ''u1'' [(''tz'', Str ''Etc/UTC'')]
          \<lparr>screenshotCache = [], files = Map.empty, writable = (\<lambda>p. False)\<rparr>))
     = [(''tz:Etc/UTC'', ''/srv/app/.tmp/u1.png'')] \<and>
   files (snd (screenshotHandler sampleCompare ''/srv/app'' (Inr ''PNG'') ''u1'' [(''tz'', Str ''Etc/UTC'')]
          \<lparr>screenshotCache = [], files = Map.empty, writable = (\<lambda>p. False)\<rparr>))
      ''/srv/app/.tmp/cache.json'' = None"
proof -
  have k: "toScreenshotCacheSlug sampleCompare [(''tz'', Str ''Etc/UTC'')] = ''tz:Etc/UTC''"
    by (simp add: toScreenshotCacheSlug_def sortArray_def)
  show ?thesis
    by (simp add: screenshotHandler_def k lookup_def store_def Let_def writeFile_def tmpPath_def)
qed

text \<open>
  Claim C9. When storing the bytes under a key succeeds, the key is bound to the fresh
  path, a lookup of the key is a hit with that path, the file at the path holds the
  stored bytes, and a request with that cache key is answered with them, whatever the
  browser would return.
\<close>

theorem store_then_lookup:
  assumes "store dirname uuid cacheSlug img s = (Inr p, s')"
  shows "p = tmpPath dirname (uuid @ ''.png'') \<and>
    map_of (screenshotCache s') cacheSlug = Some p \<and>
    lookup cacheSlug s' = (Inr (Some p), s') \<and>
    readFile s' p = Inr (Buffer img) \<and>
    (\<forall>localeCompare captured uuid' query.
       toScreenshotCacheSlug localeCompare query = cacheSlug \<longrightarrow>
       screenshotHandler localeCompare dirname captured uuid' query s' = (Inr (Buffer img), s'))"
proof -
  have p: "p = tmpPath dirname (uuid @ ''.png'')" using assms by (rule store_result(1))
  have idx: "map_of (screenshotCache s') cacheSlug = Some p"
    using store_result(2)[OF assms] by (simp add: update_conv')
  have fl: "files s' p = Some (Buffer img)"
    using store_result(3)[OF assms] p png_path_not_index_path[of dirname uuid] by simp
  have lk: "lookup cacheSlug s' = (Inr (Some p), s')"
    using idx fl by (simp add: lookup_def existsSync_def)
  have rd: "readFile s' p = Inr (Buffer img)"
    using fl by (simp add: readFile_def)
  have "screenshotHandler localeCompare dirname captured uuid' query s' = (Inr (Buffer img), s')"
    if "toScreenshotCacheSlug localeCompare query = cacheSlug" for localeCompare captured uuid' query
    using that lk rd by (simp add: screenshotHandler_def)
  with p idx lk rd show ?thesis by blast
qed

text \<open>
  The theorem at a store into the empty cache.
\<close>

theorem store_then_lookup_witness:
  "store ''/srv/app'' ''u1'' ''tz:Etc/UTC'' ''PNG''
      \<lparr>screenshotCache = [], files = Map.empty, writable = (\<lambda>p. True)\<rparr>
     = (Inr ''/srv/app/.tmp/u1.png'',
        \<lparr>screenshotCache = [(''tz:Etc/UTC'', ''/srv/app/.tmp/u1.png'')],
         files = [''/srv/app/.tmp/u1.png'' \<mapsto> Buffer ''PNG'',
                  ''/srv/app/.tmp/cache.json'' \<mapsto> Json [(''tz:Etc/UTC'', ''/srv/app/.tmp/u1.png'')]],
         writable = (\<lambda>p. True)\<rparr>) \<and>
   lookup ''tz:Etc/UTC''
      \<lparr>screenshotCache = [(''tz:Etc/UTC'', ''/srv/app/.tmp/u1.png'')],
       files = [''/srv/app/.tmp/u1.png'' \<mapsto> Buffer ''PNG'',
                ''/srv/app/.tmp/cache.json'' \<mapsto> Json [(''tz:Etc/UTC'', ''/srv/app/.tmp/u1.png'')]],
       writable = (\<lambda>p. True)\<rparr>
     = (Inr (Some ''/srv/app/.tmp/u1.png''),
        \<lparr>screenshotCache = [(''tz:Etc/UTC'', ''/srv/app/.tmp/u1.png'')],
         files = [''/srv/app/.tmp/u1.png'' \<mapsto> Buffer ''PNG'',
                  ''/srv/app/.tmp/cache.json'' \<mapsto> Json [(''tz:Etc/UTC'', ''/srv/app/.tmp/u1.png'')]],
         writable = (\<lambda>p. True)\<rparr>) \<and>
   readFile
      \<lparr>screenshotCache = [(''tz:Etc/UTC'', ''/srv/app/.tmp/u1.png'')],
       files = [''/srv/app/.tmp/u1.png'' \<mapsto> Buffer ''PNG'',
                ''/srv/app/.tmp/cache.json'' \<mapsto> Json [(''tz:Etc/UTC'', ''/srv/app/.tmp/u1.png'')]],
       writable = (\<lambda>p. True)\<rparr>
      ''/srv/app/.tmp/u1.png'' = Inr (Buffer ''PNG'')"
proof -
  let ?s = "\<lparr>screenshotCache = [], files = Map.empty, writable = (\<lambda>p. True)\<rparr>"
  let ?s' = "\<lparr>screenshotCache = [(''tz:Etc/UTC'', ''/srv/app/.tmp/u1.png'')],
         files = [''/srv/app/.tmp/u1.png'' \<mapsto> Buffer ''PNG'',
                  ''/srv/app/.tmp/cache.json'' \<mapsto> Json [(''tz:Etc/UTC'', ''/srv/app/.tmp/u1.png'')]],
         writable = (\<lambda>p. True)\<rparr>"
  have st: "store ''/srv/app'' ''u1'' ''tz:Etc/UTC'' ''PNG'' ?s = (Inr ''/srv/app/.tmp/u1.png'', ?s')"
    by (simp add: store_def Let_def writeFile_def tmpPath_def)
  from store_then_lookup[OF st] st show ?thesis by blast
qed

end
